theory Spec2Isabelle
  imports Main
begin

section \<open>Structural task records (tbformat)\<close>

text \<open>
  JSON values as the structural document format carries them.  An object keeps its keys
  in insertion order, as a JavaScript object does.
\<close>

datatype json =
    JNull
  | JBool bool
  | JNum int
  | JStr string
  | JArr "json list"
  | JObj "(string \<times> json) list"

type_synonym jobject = "(string \<times> json) list"

definition obj_get :: "jobject \<Rightarrow> string \<Rightarrow> json option" where
  "obj_get obj k = map_of obj k"

fun obj_set :: "string \<Rightarrow> json \<Rightarrow> jobject \<Rightarrow> jobject" where
  "obj_set k v [] = [(k, v)]"
| "obj_set k v ((k', v') # rest) =
     (if k' = k then (k, v) # rest else (k', v') # obj_set k v rest)"

definition obj_delete :: "string \<Rightarrow> jobject \<Rightarrow> jobject" where
  "obj_delete k obj = filter (\<lambda>kv. fst kv \<noteq> k) obj"

text \<open>JavaScript truthiness of a property read (\<open>None\<close> is \<open>undefined\<close>), as in \<open>!!v\<close>.\<close>

fun truthy :: "json option \<Rightarrow> bool" where
  "truthy None = False"
| "truthy (Some JNull) = False"
| "truthy (Some (JBool b)) = b"
| "truthy (Some (JNum n)) = (n \<noteq> 0)"
| "truthy (Some (JStr s)) = (s \<noteq> [])"
| "truthy (Some (JArr xs)) = True"
| "truthy (Some (JObj kvs)) = True"

datatype task_type = Dataintegration | Notebookcell

fun type_name :: "task_type \<Rightarrow> string" where
  "type_name Dataintegration = ''Dataintegration''"
| "type_name Notebookcell = ''Notebookcell''"

text \<open>
  \<open>tbformat.IBaseTask\<close> and its two extensions: the declared fields \<open>task_type\<close>,
  \<open>source\<close>, \<open>metadata\<close> (and \<open>execution_count\<close>, \<open>outputs\<close> of a
  Dataintegration record).  The interface extends \<open>JSONObject\<close>, so a record may carry
  further keys; they are \<open>j_extra\<close>.  A read of a key that is not a declared field,
  such as \<open>task.Task_type\<close> or \<open>task.cell_type\<close>, is a lookup in \<open>j_extra\<close>.
\<close>

record itask =
  j_task_type :: string
  j_source :: "string list + string"
  j_metadata :: jobject
  j_execution_count :: "int option"
  j_outputs :: "json list"
  j_extra :: jobject

section \<open>Task entities (TaskModel, DataintegrationTaskModel, NotebookcellTaskModel)\<close>

text \<open>
  One record for both variants.  A Notebookcell task has no execution count and no
  outputs: the two fields stay \<open>None\<close> and \<open>[]\<close> for it.  \<open>value_text\<close> is
  \<open>model.value.text\<close>.
\<close>

record task_model =
  task_id :: string
  ttype :: task_type
  value_text :: string
  metadata :: jobject
  trusted :: bool
  executionCount :: "int option"
  outputs :: "json list"
  isDisposed :: bool

text \<open>\<open>uuid()\<close>: the n-th identifier handed out.  Distinct counts give distinct ids.\<close>

definition uuid :: "nat \<Rightarrow> string" where
  "uuid n = CHR ''u'' # replicate n (CHR ''i'')"

text \<open>
  The constructor of \<open>TaskModel\<close>, continued by the one of the variant.  Without a
  source record the task is blank and untrusted.  With one, \<open>trusted\<close> is read from
  the record's metadata and deleted there, the source lines are joined, and the remaining
  metadata is copied.  The Dataintegration constructor takes execution count and outputs
  from the record only when \<open>task.Task_type === 'code'\<close>; otherwise the count is
  \<open>null\<close> and the output area starts empty.
\<close>

definition source_text :: "string list + string \<Rightarrow> string" where
  "source_text s = (case s of Inl ls \<Rightarrow> concat ls | Inr t \<Rightarrow> t)"

definition js_or_null :: "int option \<Rightarrow> int option" where
  "js_or_null c = (case c of None \<Rightarrow> None | Some n \<Rightarrow> (if n = 0 then None else Some n))"

definition TaskModel_new :: "task_type \<Rightarrow> string \<Rightarrow> itask option \<Rightarrow> task_model" where
  "TaskModel_new ty i opt =
     (case opt of
        None \<Rightarrow>
          \<lparr>task_id = i, ttype = ty, value_text = [], metadata = [], trusted = False,
           executionCount = None, outputs = [], isDisposed = False\<rparr>
      | Some task \<Rightarrow>
          (let is_code = (ty = Dataintegration \<and> obj_get (j_extra task) ''Task_type'' = Some (JStr ''code''))
           in \<lparr>task_id = i, ttype = ty,
               value_text = source_text (j_source task),
               metadata = obj_delete ''trusted'' (j_metadata task),
               trusted = truthy (obj_get (j_metadata task) ''trusted''),
               executionCount = (if is_code then js_or_null (j_execution_count task) else None),
               outputs = (if is_code then j_outputs task else []),
               isDisposed = False\<rparr>))"

text \<open>
  \<open>toJSON\<close>: the metadata map copied, \<open>trusted\<close> written into it when the flag is
  set; a Dataintegration task adds its execution count (\<open>|| null\<close>) and outputs.
\<close>

definition toJSON :: "task_model \<Rightarrow> itask" where
  "toJSON t =
     \<lparr>j_task_type = type_name (ttype t),
      j_source = Inr (value_text t),
      j_metadata = (if trusted t then obj_set ''trusted'' (JBool True) (metadata t) else metadata t),
      j_execution_count = (if ttype t = Dataintegration then js_or_null (executionCount t) else None),
      j_outputs = (if ttype t = Dataintegration then outputs t else []),
      j_extra = []\<rparr>"

section \<open>The ordered store of ids\<close>

datatype change_type = ChAdd | ChRemove | ChSet | ChMove

text \<open>\<open>IObservableList.IChangedArgs\<close>.\<close>

record 'a changed_args =
  ctype :: change_type
  oldIndex :: int
  newIndex :: int
  oldValues :: "'a list"
  newValues :: "'a list"

text \<open>
  Modelled from the spec: the undoable observable list of ids (\<open>IObservableUndoableList\<close>
  of the observables package), which the sources use and do not contain.  It is an
  ordered sequence of ids with \<open>get\<close>, \<open>set\<close>, \<open>insert\<close>, \<open>remove\<close>, \<open>move\<close>,
  \<open>push\<close>; every structural edit emits one change event carrying old and new indices and
  id lists; the edits between \<open>beginCompoundOperation\<close> and the matching
  \<open>endCompoundOperation\<close> form one undo step, nested pairs collapsing to the outermost;
  \<open>undo\<close> reverses the most recent step and \<open>redo\<close> reapplies the next one, firing the
  same events as forward edits; \<open>clearUndo\<close> discards all history.

  \<open>insert\<close> clamps its index to the bounds, \<open>remove\<close> of an index out of range changes
  nothing (both as the comments of \<open>TaskList\<close> say).  \<open>set\<close> and \<open>move\<close> with an
  index out of range are undefined behaviour in those comments; here they change nothing.
\<close>

record ordered_store =
  items :: "string list"
  undoStack :: "string changed_args list list"
  redoStack :: "string changed_args list list"
  depth :: nat
  pending :: "string changed_args list"

definition in_range :: "int \<Rightarrow> 'a list \<Rightarrow> bool" where
  "in_range i xs = (0 \<le> i \<and> i < int (length xs))"

definition store_get :: "ordered_store \<Rightarrow> int \<Rightarrow> string option" where
  "store_get s i = (if in_range i (items s) then Some (items s ! nat i) else None)"

text \<open>The bare list edit of a change, and the event it emits; no history is touched.\<close>

definition raw_insert :: "int \<Rightarrow> string \<Rightarrow> string list \<Rightarrow> string list \<times> string changed_args option" where
  "raw_insert i v xs =
     (let j = max 0 (min i (int (length xs)))
      in (take (nat j) xs @ [v] @ drop (nat j) xs,
          Some \<lparr>ctype = ChAdd, oldIndex = -1, newIndex = j, oldValues = [], newValues = [v]\<rparr>))"

definition raw_remove :: "int \<Rightarrow> string list \<Rightarrow> string list \<times> string changed_args option" where
  "raw_remove i xs =
     (if in_range i xs
      then (take (nat i) xs @ drop (Suc (nat i)) xs,
            Some \<lparr>ctype = ChRemove, oldIndex = i, newIndex = -1,
                  oldValues = [xs ! nat i], newValues = []\<rparr>)
      else (xs, None))"

definition raw_set :: "int \<Rightarrow> string \<Rightarrow> string list \<Rightarrow> string list \<times> string changed_args option" where
  "raw_set i v xs =
     (if in_range i xs
      then (xs[nat i := v],
            Some \<lparr>ctype = ChSet, oldIndex = i, newIndex = i,
                  oldValues = [xs ! nat i], newValues = [v]\<rparr>)
      else (xs, None))"

definition raw_move :: "int \<Rightarrow> int \<Rightarrow> string list \<Rightarrow> string list \<times> string changed_args option" where
  "raw_move f t xs =
     (if in_range f xs \<and> in_range t xs \<and> f \<noteq> t
      then (let v = xs ! nat f; rest = take (nat f) xs @ drop (Suc (nat f)) xs
            in (take (nat t) rest @ [v] @ drop (nat t) rest,
                Some \<lparr>ctype = ChMove, oldIndex = f, newIndex = t,
                      oldValues = [v], newValues = [v]\<rparr>))
      else (xs, None))"

text \<open>
  Recording an emitted change: outside a compound operation it is an undo step of its
  own; inside one it joins the pending group.  A new edit discards the redo steps.
\<close>

definition record_change :: "string changed_args option \<Rightarrow> ordered_store \<Rightarrow> ordered_store" where
  "record_change ev s =
     (case ev of
        None \<Rightarrow> s
      | Some c \<Rightarrow>
          (if depth s = 0
           then s\<lparr>undoStack := [c] # undoStack s, redoStack := []\<rparr>
           else s\<lparr>pending := pending s @ [c], redoStack := []\<rparr>))"

definition store_edit ::
  "(string list \<Rightarrow> string list \<times> string changed_args option) \<Rightarrow> ordered_store
    \<Rightarrow> ordered_store \<times> string changed_args option" where
  "store_edit f s = (let (xs, ev) = f (items s) in (record_change ev (s\<lparr>items := xs\<rparr>), ev))"

definition store_insert :: "int \<Rightarrow> string \<Rightarrow> ordered_store \<Rightarrow> ordered_store \<times> string changed_args option" where
  "store_insert i v = store_edit (raw_insert i v)"

definition store_push :: "string \<Rightarrow> ordered_store \<Rightarrow> ordered_store \<times> string changed_args option" where
  "store_push v s = store_edit (raw_insert (int (length (items s))) v) s"

definition store_remove :: "int \<Rightarrow> ordered_store \<Rightarrow> ordered_store \<times> string changed_args option" where
  "store_remove i = store_edit (raw_remove i)"

definition store_set :: "int \<Rightarrow> string \<Rightarrow> ordered_store \<Rightarrow> ordered_store \<times> string changed_args option" where
  "store_set i v = store_edit (raw_set i v)"

definition store_move :: "int \<Rightarrow> int \<Rightarrow> ordered_store \<Rightarrow> ordered_store \<times> string changed_args option" where
  "store_move f t = store_edit (raw_move f t)"

definition store_begin :: "ordered_store \<Rightarrow> ordered_store" where
  "store_begin s = s\<lparr>depth := Suc (depth s)\<rparr>"

definition store_end :: "ordered_store \<Rightarrow> ordered_store" where
  "store_end s =
     (if depth s = Suc 0
      then (if pending s = [] then s\<lparr>depth := 0\<rparr>
            else s\<lparr>depth := 0, undoStack := pending s # undoStack s, pending := []\<rparr>)
      else s\<lparr>depth := depth s - 1\<rparr>)"

definition store_clearUndo :: "ordered_store \<Rightarrow> ordered_store" where
  "store_clearUndo s = s\<lparr>undoStack := [], redoStack := [], pending := []\<rparr>"

text \<open>
  The edits that reverse, and that replay, one recorded change.  Each is a bare edit with
  its event.  Reversing an \<open>add\<close> removes at its index once per added id; reversing a
  \<open>remove\<close> inserts the old ids back; reversing a \<open>set\<close> sets the old ids; reversing a
  \<open>move\<close> moves back.
\<close>

datatype edit = EIns int string | ERem int | ESet int string | EMov int int

fun run_edit :: "edit \<Rightarrow> string list \<Rightarrow> string list \<times> string changed_args option" where
  "run_edit (EIns i v) xs = raw_insert i v xs"
| "run_edit (ERem i) xs = raw_remove i xs"
| "run_edit (ESet i v) xs = raw_set i v xs"
| "run_edit (EMov f t) xs = raw_move f t xs"

fun indexed :: "int \<Rightarrow> 'a list \<Rightarrow> (int \<times> 'a) list" where
  "indexed i [] = []"
| "indexed i (x # xs) = (i, x) # indexed (i + 1) xs"

definition undo_edits :: "string changed_args \<Rightarrow> edit list" where
  "undo_edits c =
     (case ctype c of
        ChAdd \<Rightarrow> map (\<lambda>v. ERem (newIndex c)) (newValues c)
      | ChRemove \<Rightarrow> map (\<lambda>(i, v). EIns i v) (indexed (oldIndex c) (oldValues c))
      | ChSet \<Rightarrow> map (\<lambda>(i, v). ESet i v) (indexed (oldIndex c) (oldValues c))
      | ChMove \<Rightarrow> [EMov (newIndex c) (oldIndex c)])"

definition redo_edits :: "string changed_args \<Rightarrow> edit list" where
  "redo_edits c =
     (case ctype c of
        ChAdd \<Rightarrow> map (\<lambda>(i, v). EIns i v) (indexed (newIndex c) (newValues c))
      | ChRemove \<Rightarrow> map (\<lambda>v. ERem (oldIndex c)) (oldValues c)
      | ChSet \<Rightarrow> map (\<lambda>(i, v). ESet i v) (indexed (newIndex c) (newValues c))
      | ChMove \<Rightarrow> [EMov (oldIndex c) (newIndex c)])"

section \<open>TaskList\<close>

datatype error = UndefinedValue | TypeError

text \<open>
  \<open>_taskOrder\<close> is the ordered store; \<open>_taskMap\<close> maps an id to an entity.  A key of
  the map may hold \<open>undefined\<close> (\<open>Some None\<close>); an absent key is \<open>None\<close>.
  \<open>typeMarker id\<close> is what \<open>this._factory.modelDB.createValue(id + '.type').get()\<close>
  returns, \<open>None\<close> when the backing store has no marker for the id.

  The entity map is an \<open>ObservableMap\<close> of the observables package, which the sources
  do not contain: \<open>mapRejectsUndefined\<close> says whether its \<open>set\<close> throws when handed
  \<open>undefined\<close> or stores it.  \<open>_onOrderChanged\<close> is a slot of the store's
  \<open>changed\<close> signal; an exception leaving a slot ends that slot, is reported by the
  signal dispatch and is not passed on to the code that made the edit.  \<open>reported\<close>
  collects these exceptions.
\<close>

record task_list =
  taskOrder :: ordered_store
  taskMap :: "string \<Rightarrow> task_model option option"
  typeMarker :: "string \<Rightarrow> string option"
  mapRejectsUndefined :: bool
  reported :: "error list"

definition map_has :: "task_list \<Rightarrow> string \<Rightarrow> bool" where
  "map_has lst k = (taskMap lst k \<noteq> None)"

definition map_get :: "task_list \<Rightarrow> string \<Rightarrow> task_model option" where
  "map_get lst k = (case taskMap lst k of Some (Some t) \<Rightarrow> Some t | _ \<Rightarrow> None)"

definition map_set :: "string \<Rightarrow> task_model option \<Rightarrow> task_list \<Rightarrow> error + task_list" where
  "map_set k v lst =
     (if v = None \<and> mapRejectsUndefined lst then Inl UndefinedValue
      else Inr (lst\<lparr>taskMap := (taskMap lst)(k := Some v)\<rparr>))"

definition TaskList_length :: "task_list \<Rightarrow> nat" where
  "TaskList_length lst = length (items (taskOrder lst))"

definition TaskList_get :: "task_list \<Rightarrow> int \<Rightarrow> task_model option" where
  "TaskList_get lst i = (case store_get (taskOrder lst) i of None \<Rightarrow> None | Some k \<Rightarrow> map_get lst k)"

text \<open>
  The materialization loop of \<open>_onOrderChanged\<close>: for each new id that the map does not
  have, the type marker selects the factory call; the \<open>switch\<close> has two cases and no
  default, so any other marker leaves \<open>task\<close> undefined; then \<open>_taskMap.set(id, task)\<close>.
\<close>

definition materialize :: "task_list \<Rightarrow> string \<Rightarrow> task_model option" where
  "materialize lst k =
     (case typeMarker lst k of
        None \<Rightarrow> None
      | Some m \<Rightarrow>
          (if m = ''Dataintegration'' then Some (TaskModel_new Dataintegration k None)
           else if m = ''Notebookcell'' then Some (TaskModel_new Notebookcell k None)
           else None))"

fun materialize_all :: "string list \<Rightarrow> task_list \<Rightarrow> error option \<times> task_list" where
  "materialize_all [] lst = (None, lst)"
| "materialize_all (k # ks) lst =
     (if map_has lst k then materialize_all ks lst
      else (case map_set k (materialize lst k) lst of
              Inl e \<Rightarrow> (Some e, lst)
            | Inr lst' \<Rightarrow> materialize_all ks lst'))"

text \<open>
  \<open>_onOrderChanged\<close>: materialize on \<open>add\<close> and \<open>set\<close>, then re-emit the change with
  the ids replaced by what the map holds for them.  The result is the exception, if one
  left the slot, the task list, and the re-emitted change.
\<close>

definition onOrderChanged ::
  "task_list \<Rightarrow> string changed_args
     \<Rightarrow> error option \<times> task_list \<times> task_model option changed_args option" where
  "onOrderChanged lst change =
     (let (err, lst') =
            (if ctype change = ChAdd \<or> ctype change = ChSet
             then materialize_all (newValues change) lst else (None, lst))
      in (case err of
            Some e \<Rightarrow> (Some e, lst', None)
          | None \<Rightarrow>
              (None, lst',
               Some \<lparr>ctype = ctype change, oldIndex = oldIndex change, newIndex = newIndex change,
                     oldValues = map (map_get lst') (oldValues change),
                     newValues = map (map_get lst') (newValues change)\<rparr>)))"

text \<open>
  What the subscribers of \<open>TaskList.changed\<close> see: each re-emitted change together with
  the task list as it is at that moment.
\<close>

type_synonym trace = "(task_list \<times> task_model option changed_args) list"

definition deliver :: "task_list \<Rightarrow> string changed_args option \<Rightarrow> task_list \<times> trace" where
  "deliver lst ev =
     (case ev of
        None \<Rightarrow> (lst, [])
      | Some c \<Rightarrow>
          (case onOrderChanged lst c of
             (Some e, lst', _) \<Rightarrow> (lst'\<lparr>reported := reported lst' @ [e]\<rparr>, [])
           | (None, lst', None) \<Rightarrow> (lst', [])
           | (None, lst', Some out) \<Rightarrow> (lst', [(lst', out)])))"

definition order_edit ::
  "(ordered_store \<Rightarrow> ordered_store \<times> string changed_args option) \<Rightarrow> task_list \<Rightarrow> task_list \<times> trace" where
  "order_edit f lst = (let (s, ev) = f (taskOrder lst) in deliver (lst\<lparr>taskOrder := s\<rparr>) ev)"

definition own :: "task_model \<Rightarrow> task_list \<Rightarrow> task_list" where
  "own t lst = lst\<lparr>taskMap := (taskMap lst)(task_id t := Some (Some t))\<rparr>"

definition TaskList_set :: "int \<Rightarrow> task_model \<Rightarrow> task_list \<Rightarrow> task_list \<times> trace" where
  "TaskList_set i t lst = order_edit (store_set i (task_id t)) (own t lst)"

definition TaskList_push :: "task_model \<Rightarrow> task_list \<Rightarrow> task_list \<times> trace" where
  "TaskList_push t lst = order_edit (store_push (task_id t)) (own t lst)"

definition TaskList_insert :: "int \<Rightarrow> task_model \<Rightarrow> task_list \<Rightarrow> task_list \<times> trace" where
  "TaskList_insert i t lst = order_edit (store_insert i (task_id t)) (own t lst)"

definition TaskList_remove :: "int \<Rightarrow> task_list \<Rightarrow> task_list \<times> trace" where
  "TaskList_remove i lst = order_edit (store_remove i) lst"

definition TaskList_move :: "int \<Rightarrow> int \<Rightarrow> task_list \<Rightarrow> task_list \<times> trace" where
  "TaskList_move f t lst = order_edit (store_move f t) lst"

definition beginCompoundOperation :: "task_list \<Rightarrow> task_list" where
  "beginCompoundOperation lst = lst\<lparr>taskOrder := store_begin (taskOrder lst)\<rparr>"

definition endCompoundOperation :: "task_list \<Rightarrow> task_list" where
  "endCompoundOperation lst = lst\<lparr>taskOrder := store_end (taskOrder lst)\<rparr>"

text \<open>Replaying a list of bare edits, each followed by the delivery of its event.\<close>

fun replay :: "edit list \<Rightarrow> task_list \<Rightarrow> task_list \<times> trace" where
  "replay [] lst = (lst, [])"
| "replay (e # es) lst =
     (let s = taskOrder lst;
          (xs, ev) = run_edit e (items s);
          (lst1, tr1) = deliver (lst\<lparr>taskOrder := s\<lparr>items := xs\<rparr>\<rparr>) ev;
          (lst2, tr2) = replay es lst1
      in (lst2, tr1 @ tr2))"

definition TaskList_undo :: "task_list \<Rightarrow> task_list \<times> trace" where
  "TaskList_undo lst =
     (case undoStack (taskOrder lst) of
        [] \<Rightarrow> (lst, [])
      | g # rest \<Rightarrow>
          (let s = taskOrder lst;
               lst0 = lst\<lparr>taskOrder := s\<lparr>undoStack := rest, redoStack := g # redoStack s\<rparr>\<rparr>
           in replay (concat (map undo_edits (rev g))) lst0))"

definition TaskList_redo :: "task_list \<Rightarrow> task_list \<times> trace" where
  "TaskList_redo lst =
     (case redoStack (taskOrder lst) of
        [] \<Rightarrow> (lst, [])
      | g # rest \<Rightarrow>
          (let s = taskOrder lst;
               lst0 = lst\<lparr>taskOrder := s\<lparr>redoStack := rest, undoStack := g # undoStack s\<rparr>\<rparr>
           in replay (concat (map redo_edits g)) lst0))"

text \<open>
  \<open>clearUndo\<close>: every key of the map that is not in the current order has its entity
  disposed and is deleted from the map; then the store's history is cleared.
\<close>

definition clearUndo :: "task_list \<Rightarrow> task_list" where
  "clearUndo lst =
     lst\<lparr>taskMap := (\<lambda>k. if k \<in> set (items (taskOrder lst)) then taskMap lst k else None),
        taskOrder := store_clearUndo (taskOrder lst)\<rparr>"

text \<open>
  An insertion into the order made by a collaborator: it arrives as an edit of the shared
  store, without a call of \<open>TaskList\<close> that would have put an entity into the map.
\<close>

definition remote_insert :: "int \<Rightarrow> string \<Rightarrow> task_list \<Rightarrow> task_list \<times> trace" where
  "remote_insert i k lst = order_edit (store_insert i k) lst"

text \<open>Order/cache coherence: every id of the order has a live entity in the map.\<close>

definition live :: "task_list \<Rightarrow> string \<Rightarrow> bool" where
  "live lst k = (case map_get lst k of None \<Rightarrow> False | Some t \<Rightarrow> \<not> isDisposed t)"

definition coherent :: "task_list \<Rightarrow> bool" where
  "coherent lst = list_all (live lst) (items (taskOrder lst))"

section \<open>TaskbookModel\<close>

text \<open>
  The document model as far as the editing surface uses it: the task list and the content
  factory, whose only state is the count of identifiers it has drawn from \<open>uuid()\<close>.
\<close>

record taskbook_model =
  tasks :: task_list
  uuidCount :: nat

definition createTask :: "task_type \<Rightarrow> itask option \<Rightarrow> taskbook_model \<Rightarrow> task_model \<times> taskbook_model" where
  "createTask ty opt m =
     (TaskModel_new ty (uuid (uuidCount m)) opt, m\<lparr>uuidCount := Suc (uuidCount m)\<rparr>)"

section \<open>The Taskbook widget\<close>

datatype taskbook_mode = command | edit

text \<open>
  A task widget: its identity as an object, the entity it shows, the attached
  \<open>selected\<close> property (created \<open>false\<close>), and the offset of its editor's cursor.
  The widget's reference to its entity is kept as the entity's value: none of the actions
  below writes to an entity that is already in the list, except \<open>runTask\<close>, whose
  write goes to the list and to the widget.
\<close>

record task_widget =
  wuid :: nat
  wmodel :: task_model
  selected :: bool
  rendered :: bool
  inputHidden :: bool
  cursorOffset :: nat

text \<open>
  The state of the editing surface.  \<open>slotErrors\<close> are the exceptions that left its
  slot of \<open>TaskList.changed\<close>; \<open>thrown\<close> is an exception that left an action.
\<close>

record taskbook =
  model :: "taskbook_model option"
  widgets :: "task_widget list"
  p_activeTaskIndex :: int
  p_activeTask :: "nat option"
  p_mode :: taskbook_mode
  p_dragData :: "(int \<times> int \<times> int) option"
  widgetCount :: nat
  slotErrors :: "error list"
  thrown :: "error option"

definition tasks_length :: "taskbook \<Rightarrow> int" where
  "tasks_length w = (case model w of None \<Rightarrow> 0 | Some m \<Rightarrow> int (TaskList_length (tasks m)))"

definition widget_at :: "task_widget list \<Rightarrow> int \<Rightarrow> task_widget option" where
  "widget_at ws i = (if in_range i ws then Some (ws ! nat i) else None)"

text \<open>The getter and the setter of \<open>activeTaskIndex\<close>.\<close>

definition activeTaskIndex :: "taskbook \<Rightarrow> int" where
  "activeTaskIndex w =
     (case model w of
        None \<Rightarrow> -1
      | Some m \<Rightarrow> (if TaskList_length (tasks m) \<noteq> 0 then p_activeTaskIndex w else -1))"

definition set_activeTaskIndex :: "int \<Rightarrow> taskbook \<Rightarrow> taskbook" where
  "set_activeTaskIndex v w =
     (let newValue =
            (if model w = None \<or> tasks_length w = 0 then -1
             else min (max v 0) (tasks_length w - 1));
          cell = widget_at (widgets w) newValue
      in w\<lparr>p_activeTaskIndex := newValue, p_activeTask := map_option wuid cell\<rparr>)"

text \<open>The setter of \<open>mode\<close>; focus is not part of the state.\<close>

definition set_mode :: "taskbook_mode \<Rightarrow> taskbook \<Rightarrow> taskbook" where
  "set_mode v w =
     (let newValue = (if p_activeTask w = None then command else v)
      in if newValue = p_mode w then w
         else if newValue = edit
         then w\<lparr>p_mode := edit,
                widgets := map (\<lambda>c. (if Some (wuid c) = p_activeTask w
                                       then c\<lparr>selected := False, inputHidden := False\<rparr>
                                       else c\<lparr>selected := False\<rparr>)) (widgets w)\<rparr>
         else w\<lparr>p_mode := newValue\<rparr>)"

definition isSelected :: "taskbook \<Rightarrow> task_widget \<Rightarrow> bool" where
  "isSelected w c = (Some (wuid c) = p_activeTask w \<or> selected c)"

definition deselectAll :: "taskbook \<Rightarrow> taskbook" where
  "deselectAll w =
     (let w' = w\<lparr>widgets := map (\<lambda>c. c\<lparr>selected := False\<rparr>) (widgets w)\<rparr>
      in set_activeTaskIndex (activeTaskIndex w') w')"

text \<open>\<open>Taskbook.select\<close> on the widget at an index.\<close>

definition select_at :: "nat \<Rightarrow> taskbook \<Rightarrow> taskbook" where
  "select_at i w =
     (if i < length (widgets w)
      then w\<lparr>widgets := (widgets w)[i := (widgets w ! i)\<lparr>selected := True\<rparr>]\<rparr>
      else w)"

text \<open>The three hooks of the interactive widget.\<close>

definition onTaskInserted :: "int \<Rightarrow> taskbook \<Rightarrow> taskbook" where
  "onTaskInserted index w =
     set_activeTaskIndex
       (if index \<le> activeTaskIndex w then activeTaskIndex w + 1 else activeTaskIndex w) w"

definition onTaskMoved :: "int \<Rightarrow> int \<Rightarrow> taskbook \<Rightarrow> taskbook" where
  "onTaskMoved fromIndex toIndex w =
     (if fromIndex = activeTaskIndex w then set_activeTaskIndex toIndex w else w)"

definition onTaskRemoved :: "int \<Rightarrow> taskbook \<Rightarrow> taskbook" where
  "onTaskRemoved index w =
     set_activeTaskIndex
       (if index \<le> activeTaskIndex w then activeTaskIndex w - 1 else activeTaskIndex w) w"

text \<open>
  The layout's list of widgets: \<open>insertWidget\<close> clamps the index to the bounds, and
  moves a widget that is already in the layout.
\<close>

definition list_insert :: "int \<Rightarrow> 'a \<Rightarrow> 'a list \<Rightarrow> 'a list" where
  "list_insert i x xs =
     (let j = nat (max 0 (min i (int (length xs)))) in take j xs @ [x] @ drop j xs)"

definition list_remove :: "int \<Rightarrow> 'a list \<Rightarrow> 'a list" where
  "list_remove i xs = (if in_range i xs then take (nat i) xs @ drop (Suc (nat i)) xs else xs)"

text \<open>
  \<open>_insertTask\<close>, \<open>_moveTask\<close>, \<open>_removeTask\<close>.  Reading \<open>cell.type\<close> of an
  undefined entity, or \<open>parent\<close> of an undefined widget, is a TypeError that ends the
  slot.
\<close>

definition insertTask :: "int \<Rightarrow> task_model option \<Rightarrow> taskbook \<Rightarrow> error option \<times> taskbook" where
  "insertTask index cell w =
     (case cell of
        None \<Rightarrow> (Some TypeError, w)
      | Some c \<Rightarrow>
          (let wd = \<lparr>wuid = widgetCount w, wmodel = c, selected = False, rendered = True,
                     inputHidden = False, cursorOffset = 0\<rparr>
           in (None, onTaskInserted index
                       (w\<lparr>widgets := list_insert index wd (widgets w),
                          widgetCount := Suc (widgetCount w)\<rparr>))))"

definition moveTask :: "int \<Rightarrow> int \<Rightarrow> taskbook \<Rightarrow> error option \<times> taskbook" where
  "moveTask fromIndex toIndex w =
     (case widget_at (widgets w) fromIndex of
        None \<Rightarrow> (Some TypeError, w)
      | Some c \<Rightarrow>
          (let rest = list_remove fromIndex (widgets w);
               j = max 0 (min toIndex (int (length rest)))
           in (None, onTaskMoved fromIndex toIndex (w\<lparr>widgets := list_insert j c rest\<rparr>))))"

definition removeTask :: "int \<Rightarrow> taskbook \<Rightarrow> error option \<times> taskbook" where
  "removeTask index w =
     (case widget_at (widgets w) index of
        None \<Rightarrow> (Some TypeError, w)
      | Some c \<Rightarrow> (None, onTaskRemoved index (w\<lparr>widgets := list_remove index (widgets w)\<rparr>)))"

fun insert_each :: "int \<Rightarrow> task_model option list \<Rightarrow> taskbook \<Rightarrow> error option \<times> taskbook" where
  "insert_each index [] w = (None, w)"
| "insert_each index (c # cs) w =
     (case insertTask index c w of
        (Some e, w') \<Rightarrow> (Some e, w')
      | (None, w') \<Rightarrow> insert_each (index + 1) cs w')"

fun remove_each :: "int \<Rightarrow> task_model option list \<Rightarrow> taskbook \<Rightarrow> error option \<times> taskbook" where
  "remove_each index [] w = (None, w)"
| "remove_each index (c # cs) w =
     (case removeTask index w of
        (Some e, w') \<Rightarrow> (Some e, w')
      | (None, w') \<Rightarrow> remove_each index cs w')"

fun set_each :: "int \<Rightarrow> task_model option list \<Rightarrow> taskbook \<Rightarrow> error option \<times> taskbook" where
  "set_each index [] w = (None, w)"
| "set_each index (c # cs) w =
     (case insertTask index c w of
        (Some e, w') \<Rightarrow> (Some e, w')
      | (None, w') \<Rightarrow>
          (case removeTask (index + 1) w' of
             (Some e, w'') \<Rightarrow> (Some e, w'')
           | (None, w'') \<Rightarrow> set_each (index + 1) cs w''))"

text \<open>\<open>StaticTaskbook._onTasksChanged\<close>.\<close>

definition onTasksChanged :: "task_model option changed_args \<Rightarrow> taskbook \<Rightarrow> error option \<times> taskbook" where
  "onTasksChanged args w =
     (case ctype args of
        ChAdd \<Rightarrow> insert_each (newIndex args) (newValues args) w
      | ChMove \<Rightarrow> moveTask (oldIndex args) (newIndex args) w
      | ChRemove \<Rightarrow> remove_each (oldIndex args) (oldValues args) w
      | ChSet \<Rightarrow> set_each (newIndex args) (newValues args) w)"

text \<open>
  One emission of \<open>TaskList.changed\<close> as the widget receives it: the task list is as
  it was at that moment.  The slot of the document model that runs before the widget's
  only subscribes to the new entities and defers its refill of an emptied list to a later
  turn; it changes nothing the widget reads.
\<close>

definition set_tasks :: "task_list \<Rightarrow> taskbook \<Rightarrow> taskbook" where
  "set_tasks lst w = w\<lparr>model := map_option (\<lambda>m. m\<lparr>tasks := lst\<rparr>) (model w)\<rparr>"

definition notify :: "task_list \<times> task_model option changed_args \<Rightarrow> taskbook \<Rightarrow> taskbook" where
  "notify ev w =
     (case onTasksChanged (snd ev) (set_tasks (fst ev) w) of
        (None, w') \<Rightarrow> w'
      | (Some e, w') \<Rightarrow> w'\<lparr>slotErrors := slotErrors w' @ [e]\<rparr>)"

definition on_tasks :: "(task_list \<Rightarrow> task_list \<times> trace) \<Rightarrow> taskbook \<Rightarrow> taskbook" where
  "on_tasks f w =
     (case model w of
        None \<Rightarrow> w
      | Some m \<Rightarrow> (let (lst, tr) = f (tasks m) in set_tasks lst (fold notify tr w)))"

definition create :: "task_type \<Rightarrow> itask option \<Rightarrow> taskbook \<Rightarrow> task_model option \<times> taskbook" where
  "create ty opt w =
     (case model w of
        None \<Rightarrow> (None, w)
      | Some m \<Rightarrow> (let (t, m') = createTask ty opt m in (Some t, w\<lparr>model := Some m'\<rparr>)))"

definition tasks_begin :: "taskbook \<Rightarrow> taskbook" where
  "tasks_begin w = on_tasks (\<lambda>l. (beginCompoundOperation l, [])) w"

definition tasks_end :: "taskbook \<Rightarrow> taskbook" where
  "tasks_end w = on_tasks (\<lambda>l. (endCompoundOperation l, [])) w"

section \<open>TaskbookActions\<close>





text \<open>
  \<open>Private.deleteTasks\<close>.  \<open>toDelete.reverse()\<close> reverses the array in place, so
  the later \<open>toDelete[0]\<close> reads the first element of the reversed array.
\<close>

definition find_toDelete :: "taskbook \<Rightarrow> int list" where
  "find_toDelete w =
     map fst (filter (\<lambda>(i, child). isSelected w child
                        \<and> obj_get (metadata (wmodel child)) ''deletable'' \<noteq> Some (JBool False))
                     (indexed 0 (widgets w)))"

definition push_default :: "taskbook \<Rightarrow> taskbook" where
  "push_default w =
     (case create Dataintegration None w of
        (Some t, w') \<Rightarrow> on_tasks (TaskList_push t) w'
      | (None, w') \<Rightarrow> w')"

definition Private_deleteTasks :: "taskbook \<Rightarrow> taskbook" where
  "Private_deleteTasks w =
     (let w0 = set_mode command w;
          toDelete = find_toDelete w0;
          w5 = (if toDelete \<noteq> []
                then (let reversed = rev toDelete;
                          w1 = tasks_begin w0;
                          w2 = fold (\<lambda>i. on_tasks (TaskList_remove i)) reversed w1;
                          w3 = (if tasks_length w2 = 0 then push_default w2 else w2);
                          w4 = tasks_end w3
                      in set_activeTaskIndex (hd reversed) w4)
                else w0)
      in deselectAll w5)"

definition deleteTasks :: "taskbook \<Rightarrow> taskbook" where
  "deleteTasks w = (if model w = None \<or> p_activeTask w = None then w else Private_deleteTasks w)"





text \<open>
  \<open>copyOrCut\<close> and \<open>paste\<close>.  The clipboard is \<open>None\<close> when it holds no data
  under the task key.  \<open>paste\<close> switches on \<open>task.Task_type\<close>; the Notebookcell
  case calls the factory with empty options.
\<close>

definition copyOrCut :: "bool \<Rightarrow> itask list option \<times> taskbook \<Rightarrow> itask list option \<times> taskbook" where
  "copyOrCut isCut cw =
     (let (clipboard, w) = cw
      in if model w = None \<or> p_activeTask w = None then (clipboard, w)
         else (let w0 = set_mode command w;
                   data = map (\<lambda>child. toJSON (wmodel child)) (filter (isSelected w0) (widgets w0))
               in (Some data, if isCut then Private_deleteTasks w0 else deselectAll w0)))"

fun make_tasks :: "itask list \<Rightarrow> taskbook \<Rightarrow> task_model list \<times> taskbook" where
  "make_tasks [] w = ([], w)"
| "make_tasks (task # rest) w =
     (let key = obj_get (j_extra task) ''Task_type'';
          (made, w1) =
            (if key = Some (JStr ''Dataintegration'') then create Dataintegration (Some task) w
             else if key = Some (JStr ''Notebookcell'') then create Notebookcell None w
             else (None, w));
          (more, w2) = make_tasks rest w1
      in ((case made of None \<Rightarrow> [] | Some t \<Rightarrow> [t]) @ more, w2))"

fun insert_run :: "int \<Rightarrow> task_model list \<Rightarrow> taskbook \<Rightarrow> taskbook" where
  "insert_run index [] w = w"
| "insert_run index (t # ts) w = insert_run (index + 1) ts (on_tasks (TaskList_insert (index + 1) t) w)"

definition paste :: "itask list option \<Rightarrow> taskbook \<Rightarrow> taskbook" where
  "paste clipboard w =
     (if model w = None \<or> p_activeTask w = None then w
      else (case clipboard of
              None \<Rightarrow> w
            | Some vals \<Rightarrow>
                (let w0 = set_mode command w;
                     (newTasks, w1) = make_tasks vals w0;
                     index = activeTaskIndex w1;
                     w2 = tasks_begin w1;
                     w3 = insert_run index newTasks w2;
                     w4 = tasks_end w3;
                     w5 = set_activeTaskIndex (activeTaskIndex w4 + int (length newTasks)) w4
                 in deselectAll w5)))"

text \<open>The \<open>undo\<close> and \<open>redo\<close> actions.\<close>

definition undo :: "taskbook \<Rightarrow> taskbook" where
  "undo w =
     (if model w = None \<or> p_activeTask w = None then w
      else deselectAll (on_tasks TaskList_undo (set_mode command w)))"

definition redo :: "taskbook \<Rightarrow> taskbook" where
  "redo w =
     (if model w = None \<or> p_activeTask w = None then w
      else deselectAll (on_tasks TaskList_redo (set_mode command w)))"

text \<open>A write to an entity of the list: it reaches the map and the widgets that show it.\<close>

definition update_entity :: "string \<Rightarrow> (task_model \<Rightarrow> task_model) \<Rightarrow> taskbook \<Rightarrow> taskbook" where
  "update_entity k f w =
     w\<lparr>model := map_option
                  (\<lambda>m. m\<lparr>tasks := (tasks m)\<lparr>taskMap :=
                         (\<lambda>x. if x = k then map_option (map_option f) (taskMap (tasks m) x)
                              else taskMap (tasks m) x)\<rparr>\<rparr>)
                  (model w),
       widgets := map (\<lambda>c. if task_id (wmodel c) = k then c\<lparr>wmodel := f (wmodel c)\<rparr> else c)
                      (widgets w)\<rparr>"

section \<open>Running tasks\<close>

text \<open>
  The execution capability is outside these sources.  A client session either has a
  kernel or not.  \<open>OutputArea.execute\<close> returns a promise that the kernel's reply
  fulfils, with a status and an execution count, or that is rejected.  What is known only
  when the promises settle is the environment: the answer for the widget at each index,
  whether that widget has been disposed by then, and whether the surface has been.
\<close>

record client_session =
  hasKernel :: bool

datatype status = StatusOk | StatusError | StatusAbort



text \<open>
  What \<open>runTask\<close> returns for the widget at an index: \<open>Promise.resolve(true)\<close>; the
  continuation of an \<open>execute\<close> that resolved with \<open>undefined\<close> at once (blank text
  or no kernel); or the continuation of an \<open>execute\<close> that awaits the kernel.
\<close>

datatype submitted = Done | NoReply nat | Awaiting nat

text \<open>\<open>!code.trim()\<close>: the text has white space only.\<close>

definition is_blank :: "string \<Rightarrow> bool" where
  "is_blank s = list_all (\<lambda>c. c \<in> set [CHR 0x09, CHR 0x0A, CHR 0x0B, CHR 0x0C, CHR 0x0D, CHR 0x20]) s"

definition update_widget :: "nat \<Rightarrow> (task_widget \<Rightarrow> task_widget) \<Rightarrow> taskbook \<Rightarrow> taskbook" where
  "update_widget i f w =
     (if i < length (widgets w) then w\<lparr>widgets := (widgets w)[i := f (widgets w ! i)]\<rparr> else w)"

text \<open>
  \<open>DataintegrationTask.execute\<close> up to its return, and \<open>runTask\<close> up to its return.
  The writes made when a reply arrives (the execution count of the reply, a payload) come
  later and are not part of this model.
\<close>

definition execute :: "client_session \<Rightarrow> nat \<Rightarrow> task_widget \<Rightarrow> taskbook \<Rightarrow> submitted \<times> taskbook" where
  "execute session i child w =
     (if is_blank (value_text (wmodel child)) \<or> \<not> hasKernel session
      then (NoReply i,
            update_entity (task_id (wmodel child)) (\<lambda>t. t\<lparr>executionCount := None, outputs := []\<rparr>) w)
      else (Awaiting i,
            update_entity (task_id (wmodel child)) (\<lambda>t. t\<lparr>executionCount := None, trusted := True\<rparr>) w))"

definition runTask :: "client_session option \<Rightarrow> nat \<Rightarrow> taskbook \<Rightarrow> submitted \<times> taskbook" where
  "runTask session i w =
     (case widget_at (widgets w) (int i) of
        None \<Rightarrow> (Done, w)
      | Some child \<Rightarrow>
          (case ttype (wmodel child) of
             Notebookcell \<Rightarrow>
               (Done, update_widget i (\<lambda>c. c\<lparr>rendered := True, inputHidden := False\<rparr>) w)
           | Dataintegration \<Rightarrow>
               (case session of
                  Some s \<Rightarrow> execute s i child w
                | None \<Rightarrow>
                    (Done, update_entity (task_id (wmodel child)) (\<lambda>t. t\<lparr>executionCount := None\<rparr>) w))))"








section \<open>Initial states\<close>

text \<open>
  The field initializers of \<open>TaskList\<close> and \<open>Taskbook\<close>, and a document
  built by creating one task per given text with the factory and handing each to
  \<open>TaskList.push\<close>, every push an undoable change of its own.
\<close>

definition new_store :: ordered_store where
  "new_store = \<lparr>items = [], undoStack = [], redoStack = [], depth = 0, pending = []\<rparr>"

definition new_TaskList :: "bool \<Rightarrow> task_list" where
  "new_TaskList strict =
     \<lparr>taskOrder = new_store, taskMap = (\<lambda>k. None), typeMarker = (\<lambda>k. None),
      mapRejectsUndefined = strict, reported = []\<rparr>"

definition new_Taskbook :: taskbook where
  "new_Taskbook =
     set_activeTaskIndex 0
       \<lparr>model = Some \<lparr>tasks = new_TaskList True, uuidCount = 0\<rparr>, widgets = [],
        p_activeTaskIndex = -1, p_activeTask = None, p_mode = command, p_dragData = None,
        widgetCount = 0, slotErrors = [], thrown = None\<rparr>"

definition push_task :: "task_type \<Rightarrow> string \<Rightarrow> taskbook \<Rightarrow> taskbook" where
  "push_task ty s w =
     (case create ty None w of
        (Some t, w') \<Rightarrow> on_tasks (TaskList_push (t\<lparr>value_text := s\<rparr>)) w'
      | (None, w') \<Rightarrow> w')"

definition document :: "task_type \<Rightarrow> string list \<Rightarrow> taskbook" where
  "document ty texts = fold (push_task ty) texts new_Taskbook"

definition texts_of :: "taskbook \<Rightarrow> string list" where
  "texts_of w =
     (case model w of
        None \<Rightarrow> []
      | Some m \<Rightarrow> map (\<lambda>k. case map_get (tasks m) k of None \<Rightarrow> ''?'' | Some t \<Rightarrow> value_text t)
                      (items (taskOrder (tasks m))))"

text \<open>Scenario B: a document of one task, that task deleted.\<close>

definition one_deleted :: taskbook where
  "one_deleted = deleteTasks (document Dataintegration [''x''])"

text \<open>
  The widget at the active index, the value the setter of \<open>activeTaskIndex\<close> resolves
  an assignment to, and the state in which the widget's slot runs for an edit that emits
  one change: the list has changed, the widgets not yet.
\<close>

definition activeWidget :: "taskbook \<Rightarrow> task_widget option" where
  "activeWidget w = widget_at (widgets w) (activeTaskIndex w)"



definition active_text :: "taskbook \<Rightarrow> string option" where
  "active_text w = map_option (\<lambda>c. value_text (wmodel c)) (activeWidget w)"

section \<open>Sequences of operations on the task list\<close>

text \<open>
  Any bare edit of the shared order made by a collaborator, and the operations of
  \<open>TaskList\<close> as a datatype, so that a sequence of them is a list.
\<close>

definition remote :: "edit \<Rightarrow> task_list \<Rightarrow> task_list \<times> trace" where
  "remote e lst = order_edit (store_edit (run_edit e)) lst"

datatype list_op =
    OpInsert int task_model
  | OpSet int task_model
  | OpPush task_model
  | OpRemove int
  | OpMove int int
  | OpUndo
  | OpRedo
  | OpClearUndo
  | OpBegin
  | OpEnd
  | OpRemote edit

fun apply_op :: "list_op \<Rightarrow> task_list \<Rightarrow> task_list" where
  "apply_op (OpInsert i t) lst = fst (TaskList_insert i t lst)"
| "apply_op (OpSet i t) lst = fst (TaskList_set i t lst)"
| "apply_op (OpPush t) lst = fst (TaskList_push t lst)"
| "apply_op (OpRemove i) lst = fst (TaskList_remove i lst)"
| "apply_op (OpMove f t) lst = fst (TaskList_move f t lst)"
| "apply_op OpUndo lst = fst (TaskList_undo lst)"
| "apply_op OpRedo lst = fst (TaskList_redo lst)"
| "apply_op OpClearUndo lst = clearUndo lst"
| "apply_op OpBegin lst = beginCompoundOperation lst"
| "apply_op OpEnd lst = endCompoundOperation lst"
| "apply_op (OpRemote e) lst = fst (remote e lst)"

text \<open>The entity handed to an operation is not disposed.\<close>

fun hands_live :: "list_op \<Rightarrow> bool" where
  "hands_live (OpInsert i t) = (\<not> isDisposed t)"
| "hands_live (OpSet i t) = (\<not> isDisposed t)"
| "hands_live (OpPush t) = (\<not> isDisposed t)"
| "hands_live other = True"

text \<open>
  Every id has one of the two type markers in the backing store; and the map holds live
  entities only, one at least for every id of the order.
\<close>

definition marked :: "task_list \<Rightarrow> bool" where
  "marked lst = (\<forall>k. typeMarker lst k = Some ''Dataintegration'' \<or> typeMarker lst k = Some ''Notebookcell'')"

definition map_live :: "task_list \<Rightarrow> bool" where
  "map_live lst = (\<forall>k. taskMap lst k \<noteq> Some None
                       \<and> (\<forall>t. taskMap lst k = Some (Some t) \<longrightarrow> \<not> isDisposed t))"

definition sound :: "task_list \<Rightarrow> bool" where
  "sound lst = (map_live lst \<and> (\<forall>k \<in> set (items (taskOrder lst)). taskMap lst k \<noteq> None))"

text \<open>An edit brings no id into the order that is not among the new values of its event.\<close>

definition brings :: "string changed_args option \<Rightarrow> string set" where
  "brings ev = (case ev of None \<Rightarrow> {}
                | Some c \<Rightarrow> (if ctype c = ChAdd \<or> ctype c = ChSet then set (newValues c) else {}))"

text \<open>An operation keeps the list sound and marked and reports nothing new.\<close>

definition kept :: "task_list \<Rightarrow> task_list \<Rightarrow> bool" where
  "kept L L' = (sound L' \<and> marked L' \<and> reported L' = reported L)"

section \<open>Frames\<close>

text \<open>
  What a slot of the widget leaves as it is: mode, drag data, a recorded exception and the
  model.  A delivery of a change replaces the task list inside the model and nothing else
  of it.
\<close>

definition frame :: "taskbook \<Rightarrow> taskbook \<Rightarrow> bool" where
  "frame w w' = (p_mode w' = p_mode w \<and> p_dragData w' = p_dragData w \<and> thrown w' = thrown w
                 \<and> model w' = model w)"

definition frame0 :: "taskbook \<Rightarrow> taskbook \<Rightarrow> bool" where
  "frame0 w w' = (p_mode w' = p_mode w \<and> p_dragData w' = p_dragData w \<and> thrown w' = thrown w
                 \<and> (model w' = None) = (model w = None)
                 \<and> map_option uuidCount (model w') = map_option uuidCount (model w))"


















text \<open>The undo history of the document, each change as its type, old index and new index.\<close>

definition history_of :: "taskbook \<Rightarrow> (change_type \<times> int \<times> int) list list" where
  "history_of w =
     (case model w of
        None \<Rightarrow> []
      | Some m \<Rightarrow> map (map (\<lambda>c. (ctype c, oldIndex c, newIndex c))) (undoStack (taskOrder (tasks m))))"

section \<open>Properties\<close>

text \<open>
  C7.  Assigning any integer \<open>v\<close> to \<open>activeTaskIndex\<close> stores
  \<open>max 0 (min v (length - 1))\<close> when the task list is non-empty and \<open>-1\<close> when it is
  empty or there is no model; the getter returns \<open>-1\<close> whenever the list is empty or
  there is no model, and the stored index otherwise.
\<close>

theorem activeTaskIndex_clamp:
  "p_activeTaskIndex (set_activeTaskIndex v w) =
     (if model w = None \<or> tasks_length w = 0 then -1 else max 0 (min v (tasks_length w - 1)))
   \<and> activeTaskIndex (set_activeTaskIndex v w) =
     (if model w = None \<or> tasks_length w = 0 then -1 else max 0 (min v (tasks_length w - 1)))
   \<and> activeTaskIndex w =
     (if model w = None \<or> tasks_length w = 0 then -1 else p_activeTaskIndex w)"
  by (auto simp: set_activeTaskIndex_def activeTaskIndex_def tasks_length_def Let_def
           split: option.splits)

subsection \<open>What the slots leave untouched\<close>

lemma frame_refl: "frame w w"
  by (simp add: frame_def)

lemma frame_trans: "frame w w1 \<Longrightarrow> frame w1 w2 \<Longrightarrow> frame w w2"
  by (simp add: frame_def)

lemma frame_set_activeTaskIndex: "frame w (set_activeTaskIndex v w)"
  by (simp add: frame_def set_activeTaskIndex_def Let_def)

lemma frame_insertTask: "frame w (snd (insertTask i c w))"
  by (cases c) (simp_all add: frame_def insertTask_def onTaskInserted_def set_activeTaskIndex_def Let_def)

lemma frame_removeTask: "frame w (snd (removeTask i w))"
  by (simp add: frame_def removeTask_def onTaskRemoved_def set_activeTaskIndex_def Let_def
      split: option.splits)

lemma frame_moveTask: "frame w (snd (moveTask i j w))"
  by (simp add: frame_def moveTask_def onTaskMoved_def set_activeTaskIndex_def Let_def
      split: option.splits)

lemma frame_insert_each: "frame w (snd (insert_each i cs w))"
proof (induction cs arbitrary: i w)
  case Nil
  show ?case by (simp add: frame_refl)
next
  case (Cons c cs)
  obtain e w' where p1: "insertTask i c w = (e, w')" by (cases "insertTask i c w")
  have fw: "frame w w'" using frame_insertTask[of w i c] p1 by simp
  show ?case
  proof (cases e)
    case None
    with p1 fw Cons.IH[of w' "i + 1"] show ?thesis
      by (auto intro: frame_trans)
  next
    case (Some a)
    with p1 fw show ?thesis by simp
  qed
qed

lemma frame_remove_each: "frame w (snd (remove_each i cs w))"
proof (induction cs arbitrary: w)
  case Nil
  show ?case by (simp add: frame_refl)
next
  case (Cons c cs)
  obtain e w' where p1: "removeTask i w = (e, w')" by (cases "removeTask i w")
  have fw: "frame w w'" using frame_removeTask[of w i] p1 by simp
  show ?case
  proof (cases e)
    case None
    with p1 fw Cons.IH[of w'] show ?thesis
      by (auto intro: frame_trans)
  next
    case (Some a)
    with p1 fw show ?thesis by simp
  qed
qed

lemma frame_set_each: "frame w (snd (set_each i cs w))"
proof (induction cs arbitrary: i w)
  case Nil
  show ?case by (simp add: frame_refl)
next
  case (Cons c cs)
  obtain e w' where p1: "insertTask i c w = (e, w')" by (cases "insertTask i c w")
  have fw: "frame w w'" using frame_insertTask[of w i c] p1 by simp
  obtain e2 w2 where p2: "removeTask (i + 1) w' = (e2, w2)" by (cases "removeTask (i + 1) w'")
  have fw2: "frame w' w2" using frame_removeTask[of w' "i + 1"] p2 by simp
  show ?case
  proof (cases e)
    case (Some a)
    with p1 fw show ?thesis by simp
  next
    case None
    note eN = this
    show ?thesis
    proof (cases e2)
      case (Some a)
      with eN p1 p2 fw fw2 show ?thesis by (auto intro: frame_trans)
    next
      case None
      with eN p1 p2 fw fw2 Cons.IH[of w2 "i + 1"] show ?thesis
        by (auto intro: frame_trans)
    qed
  qed
qed

lemma frame_onTasksChanged: "frame w (snd (onTasksChanged args w))"
  by (cases "ctype args")
     (simp_all add: onTasksChanged_def frame_insert_each frame_remove_each frame_set_each frame_moveTask)

lemma frame0_notify: "frame0 w (notify ev w)"
proof -
  obtain e w' where p: "onTasksChanged (snd ev) (set_tasks (fst ev) w) = (e, w')"
    by (cases "onTasksChanged (snd ev) (set_tasks (fst ev) w)")
  have "frame (set_tasks (fst ev) w) w'"
    using frame_onTasksChanged[of "set_tasks (fst ev) w" "snd ev"] p by simp
  then show ?thesis using p
    by (cases e; cases "model w") (auto simp: notify_def frame0_def frame_def set_tasks_def)
qed

lemma frame0_fold_notify: "frame0 w (fold notify tr w)"
proof (induction tr arbitrary: w)
  case Nil
  show ?case by (simp add: frame0_def)
next
  case (Cons ev tr)
  have "frame0 w (notify ev w)" by (rule frame0_notify)
  moreover have "frame0 (notify ev w) (fold notify tr (notify ev w))" by (rule Cons.IH)
  ultimately show ?case by (simp add: frame0_def)
qed

lemma on_tasks_frame:
  assumes "model w = Some m"
  shows "p_mode (on_tasks f w) = p_mode w \<and> p_dragData (on_tasks f w) = p_dragData w
     \<and> thrown (on_tasks f w) = thrown w
     \<and> model (on_tasks f w) = Some (m\<lparr>tasks := fst (f (tasks m))\<rparr>)"
proof -
  obtain lst tr where p: "f (tasks m) = (lst, tr)" by (cases "f (tasks m)")
  have fr: "frame0 w (fold notify tr w)" by (rule frame0_fold_notify)
  then obtain m' where m': "model (fold notify tr w) = Some m'" "uuidCount m' = uuidCount m"
    using assms by (cases "model (fold notify tr w)") (auto simp: frame0_def)
  show ?thesis using assms p fr m'
    by (simp add: on_tasks_def set_tasks_def frame0_def)
qed

lemma deselectAll_effect:
  "widgets (deselectAll w) = map (\<lambda>c. c\<lparr>selected := False\<rparr>) (widgets w) \<and> frame w (deselectAll w)"
  by (simp add: deselectAll_def set_activeTaskIndex_def frame_def Let_def)

lemma set_mode_command:
  "p_mode (set_mode command w) = command \<and> model (set_mode command w) = model w
   \<and> p_dragData (set_mode command w) = p_dragData w \<and> thrown (set_mode command w) = thrown w
   \<and> p_activeTask (set_mode command w) = p_activeTask w"
  by (simp add: set_mode_def Let_def)

text \<open>
  C9.  The \<open>undo\<close> and \<open>redo\<close> actions change nothing when there is no model or
  no active task.  Otherwise they leave the mode at \<open>command\<close> and no widget
  selected, the task list of the model is the one \<open>undo()\<close> (\<open>redo()\<close>) of the
  list returns, and the factory's count, the drag data and a recorded exception are as
  before; the widgets and the active index follow the change events.
\<close>

theorem undo_redo_frame:
  "(model w = None \<or> p_activeTask w = None \<longrightarrow> undo w = w \<and> redo w = w)
   \<and> (model w \<noteq> None \<and> p_activeTask w \<noteq> None \<longrightarrow>
        p_mode (undo w) = command \<and> p_mode (redo w) = command
        \<and> list_all (\<lambda>c. \<not> selected c) (widgets (undo w))
        \<and> list_all (\<lambda>c. \<not> selected c) (widgets (redo w))
        \<and> map_option tasks (model (undo w)) = map_option (\<lambda>m. fst (TaskList_undo (tasks m))) (model w)
        \<and> map_option tasks (model (redo w)) = map_option (\<lambda>m. fst (TaskList_redo (tasks m))) (model w)
        \<and> map_option uuidCount (model (undo w)) = map_option uuidCount (model w)
        \<and> map_option uuidCount (model (redo w)) = map_option uuidCount (model w)
        \<and> p_dragData (undo w) = p_dragData w \<and> p_dragData (redo w) = p_dragData w
        \<and> thrown (undo w) = thrown w \<and> thrown (redo w) = thrown w)"
proof (intro conjI impI)
  assume "model w = None \<or> p_activeTask w = None"
  then show "undo w = w" "redo w = w" by (auto simp: undo_def redo_def)
next
  assume a: "model w \<noteq> None \<and> p_activeTask w \<noteq> None"
  then obtain m where m: "model w = Some m" by auto
  let ?w0 = "set_mode command w"
  have m0: "model ?w0 = Some m" using m set_mode_command[of w] by simp
  note u = on_tasks_frame[OF m0, of TaskList_undo]
  note r = on_tasks_frame[OF m0, of TaskList_redo]
  have du: "undo w = deselectAll (on_tasks TaskList_undo ?w0)" using a by (auto simp: undo_def)
  have dr: "redo w = deselectAll (on_tasks TaskList_redo ?w0)" using a by (auto simp: redo_def)
  note fu = deselectAll_effect[of "on_tasks TaskList_undo ?w0"]
  note fr = deselectAll_effect[of "on_tasks TaskList_redo ?w0"]
  show "p_mode (undo w) = command" using du fu u set_mode_command[of w] by (simp add: frame_def)
  show "p_mode (redo w) = command" using dr fr r set_mode_command[of w] by (simp add: frame_def)
  show "list_all (\<lambda>c. \<not> selected c) (widgets (undo w))" using du fu by (simp add: list_all_iff)
  show "list_all (\<lambda>c. \<not> selected c) (widgets (redo w))" using dr fr by (simp add: list_all_iff)
  show "map_option tasks (model (undo w)) = map_option (\<lambda>m. fst (TaskList_undo (tasks m))) (model w)"
    using du fu u m by (simp add: frame_def)
  show "map_option tasks (model (redo w)) = map_option (\<lambda>m. fst (TaskList_redo (tasks m))) (model w)"
    using dr fr r m by (simp add: frame_def)
  show "map_option uuidCount (model (undo w)) = map_option uuidCount (model w)"
    using du fu u m by (simp add: frame_def)
  show "map_option uuidCount (model (redo w)) = map_option uuidCount (model w)"
    using dr fr r m by (simp add: frame_def)
  show "p_dragData (undo w) = p_dragData w" using du fu u set_mode_command[of w] by (simp add: frame_def)
  show "p_dragData (redo w) = p_dragData w" using dr fr r set_mode_command[of w] by (simp add: frame_def)
  show "thrown (undo w) = thrown w" using du fu u set_mode_command[of w] by (simp add: frame_def)
  show "thrown (redo w) = thrown w" using dr fr r set_mode_command[of w] by (simp add: frame_def)
qed

subsection \<open>The active index under insertions, removals and moves\<close>














subsection \<open>Entities made by the factory\<close>


lemma TaskModel_new_facts:
  "task_id (TaskModel_new ty i opt) = i \<and> ttype (TaskModel_new ty i opt) = ty
   \<and> \<not> isDisposed (TaskModel_new ty i opt)"
  by (cases opt) (simp_all add: TaskModel_new_def Let_def)


subsection \<open>Splitting the active task\<close>






subsection \<open>What an edit of the list does to the store and the map\<close>









subsection \<open>Changing the type of a task\<close>












subsection \<open>The outcome of a run\<close>













lemma runTask_None_length: "length (widgets (snd (runTask None j w))) = length (widgets w)"
  by (auto simp: runTask_def update_entity_def update_widget_def split: option.splits task_type.splits)









subsection \<open>Order/cache coherence under recognized type markers\<close>

lemma sound_coherent: "sound L \<Longrightarrow> coherent L"
proof -
  assume s: "sound L"
  have "live L k" if "k \<in> set (items (taskOrder L))" for k
  proof -
    from s that have "taskMap L k \<noteq> None" by (simp add: sound_def)
    moreover from s have "taskMap L k \<noteq> Some None" by (simp add: sound_def map_live_def)
    ultimately obtain t where t: "taskMap L k = Some (Some t)" by (cases "taskMap L k") auto
    with s have "\<not> isDisposed t" by (simp add: sound_def map_live_def)
    with t show ?thesis by (simp add: live_def map_get_def)
  qed
  then show ?thesis by (simp add: coherent_def list_all_iff)
qed

lemma materialize_marked: "marked L \<Longrightarrow> \<exists>t. materialize L k = Some t \<and> \<not> isDisposed t"
proof -
  assume "marked L"
  then have "typeMarker L k = Some ''Dataintegration'' \<or> typeMarker L k = Some ''Notebookcell''"
    by (simp add: marked_def)
  then show ?thesis
    by (auto simp: materialize_def TaskModel_new_facts)
qed

lemma materialize_all_marked:
  assumes "marked L" "map_live L"
  shows "\<exists>L'. materialize_all ks L = (None, L') \<and> map_live L' \<and> marked L'
            \<and> taskOrder L' = taskOrder L \<and> reported L' = reported L
            \<and> (\<forall>k. taskMap L k \<noteq> None \<longrightarrow> taskMap L' k \<noteq> None)
            \<and> (\<forall>k \<in> set ks. taskMap L' k \<noteq> None)"
  using assms
proof (induction ks arbitrary: L)
  case Nil
  then show ?case by simp
next
  case (Cons k ks)
  show ?case
  proof (cases "map_has L k")
    case True
    with Cons.IH[OF Cons.prems] show ?thesis by (auto simp: map_has_def)
  next
    case False
    obtain t where t: "materialize L k = Some t" "\<not> isDisposed t"
      using materialize_marked[OF Cons.prems(1)] by blast
    let ?L1 = "L\<lparr>taskMap := (taskMap L)(k := Some (Some t))\<rparr>"
    have ms: "map_set k (materialize L k) L = Inr ?L1" using t by (simp add: map_set_def)
    have m1: "marked ?L1" using Cons.prems(1) by (simp add: marked_def)
    have l1: "map_live ?L1" using Cons.prems(2) t by (simp add: map_live_def)
    obtain L' where L': "materialize_all ks ?L1 = (None, L')" "map_live L'" "marked L'"
        "taskOrder L' = taskOrder ?L1" "reported L' = reported ?L1"
        "\<forall>k. taskMap ?L1 k \<noteq> None \<longrightarrow> taskMap L' k \<noteq> None"
        "\<forall>k \<in> set ks. taskMap L' k \<noteq> None"
      using Cons.IH[OF m1 l1] by blast
    have "materialize_all (k # ks) L = (None, L')" using False ms L'(1) by simp
    moreover have "\<forall>j. taskMap L j \<noteq> None \<longrightarrow> taskMap L' j \<noteq> None" using L'(6) by auto
    moreover have "\<forall>j \<in> set (k # ks). taskMap L' j \<noteq> None" using L'(6,7) by auto
    ultimately show ?thesis using L'(2,3,4,5) by simp
  qed
qed

lemma deliver_sound:
  assumes mk: "marked L" and ml: "map_live L"
    and it: "\<forall>k \<in> set (items (taskOrder L)). taskMap L k \<noteq> None \<or> k \<in> brings ev"
  shows "sound (fst (deliver L ev)) \<and> marked (fst (deliver L ev))
         \<and> taskOrder (fst (deliver L ev)) = taskOrder L \<and> reported (fst (deliver L ev)) = reported L"
proof (cases ev)
  case None
  with assms show ?thesis by (auto simp: deliver_def sound_def brings_def)
next
  case (Some c)
  show ?thesis
  proof (cases "ctype c = ChAdd \<or> ctype c = ChSet")
    case True
    obtain L' where L': "materialize_all (newValues c) L = (None, L')" "map_live L'" "marked L'"
        "taskOrder L' = taskOrder L" "reported L' = reported L"
        "\<forall>k. taskMap L k \<noteq> None \<longrightarrow> taskMap L' k \<noteq> None"
        "\<forall>k \<in> set (newValues c). taskMap L' k \<noteq> None"
      using materialize_all_marked[OF mk ml, of "newValues c"] by blast
    have d: "fst (deliver L ev) = L'"
      using Some True L'(1) by (simp add: deliver_def onOrderChanged_def Let_def)
    have "\<forall>k \<in> set (items (taskOrder L')). taskMap L' k \<noteq> None"
      using it L'(4,6,7) Some True by (auto simp: brings_def)
    then show ?thesis using d L' by (simp add: sound_def)
  next
    case False
    then have d: "fst (deliver L ev) = L"
      using Some by (simp add: deliver_def onOrderChanged_def Let_def)
    have "\<forall>k \<in> set (items (taskOrder L)). taskMap L k \<noteq> None"
      using it Some False by (auto simp: brings_def)
    then show ?thesis using d mk ml by (simp add: sound_def)
  qed
qed

lemma set_take_drop: "set (take i xs @ drop (Suc i) xs) \<subseteq> set xs"
  by (metis append_take_drop_id set_append set_drop_subset_set_drop Suc_n_not_le_n
      Un_mono le_Suc_eq nat_le_linear set_drop_subset order_refl)

lemma run_edit_brings:
  "set (fst (run_edit e xs)) \<subseteq> set xs \<union> brings (snd (run_edit e xs))"
proof (cases e)
  case (EIns i v)
  then show ?thesis
    by (auto simp: raw_insert_def brings_def Let_def dest: in_set_takeD in_set_dropD)
next
  case (ERem i)
  then show ?thesis
    using set_take_drop[of "nat i" xs] by (auto simp: raw_remove_def brings_def)
next
  case (ESet i v)
  then show ?thesis
    using set_update_subset_insert[of xs "nat i" v] by (auto simp: raw_set_def brings_def)
next
  case (EMov f t)
  then show ?thesis
    using set_take_drop[of "nat f" xs]
    by (auto simp: raw_move_def brings_def Let_def in_range_def dest!: in_set_takeD in_set_dropD)
qed


lemma edit_sound:
  assumes mk: "marked L" and sd: "sound L"
  shows "kept L (fst (order_edit (store_edit (run_edit e)) L))"
proof -
  let ?s = "taskOrder L"
  obtain xs ev where r: "run_edit e (items ?s) = (xs, ev)" by (cases "run_edit e (items ?s)")
  let ?s' = "record_change ev (?s\<lparr>items := xs\<rparr>)"
  have se: "store_edit (run_edit e) ?s = (?s', ev)" using r by (simp add: store_edit_def)
  have its: "items ?s' = xs" by (simp add: record_change_def split: option.splits)
  let ?L1 = "L\<lparr>taskOrder := ?s'\<rparr>"
  have b: "set xs \<subseteq> set (items ?s) \<union> brings ev"
    using run_edit_brings[of e "items ?s"] r by simp
  have c: "\<forall>k \<in> set (items (taskOrder ?L1)). taskMap ?L1 k \<noteq> None \<or> k \<in> brings ev"
    using b sd its by (auto simp: sound_def)
  have "marked ?L1" "map_live ?L1" using mk sd by (simp_all add: marked_def map_live_def sound_def)
  then have "sound (fst (deliver ?L1 ev)) \<and> marked (fst (deliver ?L1 ev))
       \<and> reported (fst (deliver ?L1 ev)) = reported ?L1"
    using deliver_sound[of ?L1 ev] c by blast
  then show ?thesis using se by (simp add: order_edit_def kept_def)
qed

lemma own_sound:
  assumes "marked L" "sound L" "\<not> isDisposed t"
  shows "marked (own t L) \<and> sound (own t L) \<and> reported (own t L) = reported L"
  using assms by (auto simp: own_def marked_def sound_def map_live_def)

lemma replay_sound:
  assumes "marked L" "sound L"
  shows "kept L (fst (replay es L))"
  using assms
proof (induction es arbitrary: L)
  case Nil
  then show ?case by (simp add: kept_def)
next
  case (Cons e es)
  let ?s = "taskOrder L"
  obtain xs ev where r: "run_edit e (items ?s) = (xs, ev)" by (cases "run_edit e (items ?s)")
  let ?L1 = "L\<lparr>taskOrder := ?s\<lparr>items := xs\<rparr>\<rparr>"
  obtain L2 tr1 where d: "deliver ?L1 ev = (L2, tr1)" by (cases "deliver ?L1 ev")
  obtain L3 tr2 where p: "replay es L2 = (L3, tr2)" by (cases "replay es L2")
  have b: "set xs \<subseteq> set (items ?s) \<union> brings ev"
    using run_edit_brings[of e "items ?s"] r by simp
  have c: "\<forall>k \<in> set (items (taskOrder ?L1)). taskMap ?L1 k \<noteq> None \<or> k \<in> brings ev"
    using b Cons.prems(2) by (auto simp: sound_def)
  have "marked ?L1" "map_live ?L1"
    using Cons.prems by (simp_all add: marked_def map_live_def sound_def)
  then have 2: "sound L2" "marked L2" "reported L2 = reported L"
    using deliver_sound[of ?L1 ev] c d by auto
  have "kept L2 L3" using Cons.IH[OF 2(2) 2(1)] p by simp
  then have "kept L L3" using 2(3) by (simp add: kept_def)
  then show ?case using r d p by (simp add: Let_def)
qed

lemma stacks_sound:
  assumes "marked L" "sound L" "items s = items (taskOrder L)"
  shows "marked (L\<lparr>taskOrder := s\<rparr>) \<and> sound (L\<lparr>taskOrder := s\<rparr>)
         \<and> reported (L\<lparr>taskOrder := s\<rparr>) = reported L"
  using assms by (simp add: marked_def sound_def map_live_def)

lemma run_edit_fun:
  "run_edit (EIns i v) = raw_insert i v" "run_edit (ERem i) = raw_remove i"
  "run_edit (ESet i v) = raw_set i v" "run_edit (EMov f t) = raw_move f t"
  by (rule ext, simp)+

lemma apply_op_sound:
  assumes mk: "marked L" and sd: "sound L" and lv: "hands_live op"
  shows "kept L (apply_op op L)"
proof (cases op)
  case (OpInsert i t)
  have o: "marked (own t L) \<and> sound (own t L) \<and> reported (own t L) = reported L"
    using own_sound[OF mk sd] lv OpInsert by simp
  have "kept (own t L) (fst (order_edit (store_edit (run_edit (EIns i (task_id t)))) (own t L)))"
    using edit_sound o by blast
  then show ?thesis using OpInsert o by (simp add: TaskList_insert_def store_insert_def kept_def run_edit_fun)
next
  case (OpSet i t)
  have o: "marked (own t L) \<and> sound (own t L) \<and> reported (own t L) = reported L"
    using own_sound[OF mk sd] lv OpSet by simp
  have "kept (own t L) (fst (order_edit (store_edit (run_edit (ESet i (task_id t)))) (own t L)))"
    using edit_sound o by blast
  then show ?thesis using OpSet o by (simp add: TaskList_set_def store_set_def kept_def run_edit_fun)
next
  case (OpPush t)
  have o: "marked (own t L) \<and> sound (own t L) \<and> reported (own t L) = reported L"
    using own_sound[OF mk sd] lv OpPush by simp
  let ?n = "int (length (items (taskOrder (own t L))))"
  have e: "store_push (task_id t) (taskOrder (own t L))
            = store_edit (run_edit (EIns ?n (task_id t))) (taskOrder (own t L))"
    by (simp add: store_push_def run_edit_fun)
  have "kept (own t L) (fst (order_edit (store_edit (run_edit (EIns ?n (task_id t)))) (own t L)))"
    using edit_sound o by blast
  then show ?thesis using OpPush o e by (simp add: TaskList_push_def order_edit_def kept_def)
next
  case (OpRemove i)
  have "kept L (fst (order_edit (store_edit (run_edit (ERem i))) L))" using edit_sound[OF mk sd] .
  then show ?thesis using OpRemove by (simp add: TaskList_remove_def store_remove_def run_edit_fun)
next
  case (OpMove f t)
  have "kept L (fst (order_edit (store_edit (run_edit (EMov f t))) L))" using edit_sound[OF mk sd] .
  then show ?thesis using OpMove by (simp add: TaskList_move_def store_move_def run_edit_fun)
next
  case OpUndo
  show ?thesis
  proof (cases "undoStack (taskOrder L)")
    case Nil
    then show ?thesis using OpUndo mk sd by (simp add: TaskList_undo_def kept_def)
  next
    case (Cons g rest)
    let ?s = "(taskOrder L)\<lparr>undoStack := rest, redoStack := g # redoStack (taskOrder L)\<rparr>"
    have s: "marked (L\<lparr>taskOrder := ?s\<rparr>) \<and> sound (L\<lparr>taskOrder := ?s\<rparr>)
         \<and> reported (L\<lparr>taskOrder := ?s\<rparr>) = reported L"
      using stacks_sound[OF mk sd, of ?s] by simp
    then have "kept (L\<lparr>taskOrder := ?s\<rparr>) (fst (replay (concat (map undo_edits (rev g))) (L\<lparr>taskOrder := ?s\<rparr>)))"
      using replay_sound by blast
    then show ?thesis using OpUndo Cons s by (simp add: TaskList_undo_def kept_def Let_def)
  qed
next
  case OpRedo
  show ?thesis
  proof (cases "redoStack (taskOrder L)")
    case Nil
    then show ?thesis using OpRedo mk sd by (simp add: TaskList_redo_def kept_def)
  next
    case (Cons g rest)
    let ?s = "(taskOrder L)\<lparr>redoStack := rest, undoStack := g # undoStack (taskOrder L)\<rparr>"
    have s: "marked (L\<lparr>taskOrder := ?s\<rparr>) \<and> sound (L\<lparr>taskOrder := ?s\<rparr>)
         \<and> reported (L\<lparr>taskOrder := ?s\<rparr>) = reported L"
      using stacks_sound[OF mk sd, of ?s] by simp
    then have "kept (L\<lparr>taskOrder := ?s\<rparr>) (fst (replay (concat (map redo_edits g)) (L\<lparr>taskOrder := ?s\<rparr>)))"
      using replay_sound by blast
    then show ?thesis using OpRedo Cons s by (simp add: TaskList_redo_def kept_def Let_def)
  qed
next
  case OpClearUndo
  then show ?thesis using mk sd
    by (auto simp: clearUndo_def store_clearUndo_def kept_def marked_def sound_def map_live_def)
next
  case OpBegin
  then show ?thesis using mk sd
    by (simp add: beginCompoundOperation_def store_begin_def kept_def marked_def sound_def map_live_def)
next
  case OpEnd
  then show ?thesis using mk sd
    by (simp add: endCompoundOperation_def store_end_def kept_def marked_def sound_def map_live_def)
next
  case (OpRemote e)
  then show ?thesis using edit_sound[OF mk sd, of e] by (simp add: remote_def)
qed

text \<open>
  Where every id has one of the two type markers, every sequence of operations (entities
  handed in being live) keeps the map sound and the order coherent, and reports no
  exception.
\<close>

lemma coherence_kept:
  assumes "marked L" "sound L" "list_all hands_live ops"
  shows "kept L (fold apply_op ops L) \<and> coherent (fold apply_op ops L)"
  using assms
proof (induction ops arbitrary: L)
  case Nil
  then show ?case by (simp add: kept_def sound_coherent)
next
  case (Cons op ops)
  have k: "kept L (apply_op op L)" using apply_op_sound[OF Cons.prems(1,2)] Cons.prems(3) by simp
  then have "kept (apply_op op L) (fold apply_op ops (apply_op op L))
       \<and> coherent (fold apply_op ops (apply_op op L))"
    using Cons.IH[of "apply_op op L"] Cons.prems(3) by (simp add: kept_def)
  then show ?case using k by (simp add: kept_def)
qed

section \<open>Evaluations at concrete inputs\<close>

text \<open>
  C1.  Order/cache coherence is claimed for every sequence of operations, ids that
  arrive by collaborative sync included.  It fails at the first such id whose type marker
  the backing store does not have: the list starts coherent, the collaborator's insert of
  \<open>x\<close> puts \<open>x\<close> into the order, and \<open>get(0)\<close> has no entity, whether the
  entity map stores \<open>undefined\<close> or rejects it.
\<close>

theorem coherence_lost_on_unmarked_id:
  "coherent (new_TaskList False) \<and> coherent (new_TaskList True)
   \<and> \<not> coherent (fst (remote_insert 0 ''x'' (new_TaskList False)))
   \<and> \<not> coherent (fst (remote_insert 0 ''x'' (new_TaskList True)))
   \<and> TaskList_get (fst (remote_insert 0 ''x'' (new_TaskList False))) 0 = None
   \<and> TaskList_get (fst (remote_insert 0 ''x'' (new_TaskList True))) 0 = None"
  by code_simp

text \<open>
  C2.  A new id with a missing type marker.  \<open>_onOrderChanged\<close> has no branch for
  it: \<open>task\<close> stays undefined and goes to \<open>_taskMap.set\<close>.  If the map stores
  it, nothing is reported and the change is re-emitted with an undefined entity; if the
  map rejects it, the exception of the map ends the slot, the change is not re-emitted.
  Either way the id stays in the order and no entity can be read for it.
\<close>

theorem unmarked_id_stays_without_entity:
  "(let (l, tr) = remote_insert 0 ''x'' (new_TaskList False)
    in items (taskOrder l) = [''x''] \<and> map_get l ''x'' = None \<and> reported l = []
       \<and> map (\<lambda>ev. newValues (snd ev)) tr = [[None]])
   \<and> (let (l, tr) = remote_insert 0 ''x'' (new_TaskList True)
       in items (taskOrder l) = [''x''] \<and> map_get l ''x'' = None
          \<and> reported l = [UndefinedValue] \<and> tr = [])"
  by code_simp

text \<open>
  C3.  Four tasks, the second active and the first selected as well, all deletable.  The
  indices to delete are 0 and 1; they are removed as 1, then 0, in one new undo step; the
  tasks \<open>c\<close> and \<open>d\<close> remain; the new active index is 1, the index of the last
  task deleted, where the claim and the comment of the action say 0, the place of the
  task after the deleted ones.  Deleting the only task of a document (scenario B) leaves
  one blank task, in one undo step that holds the removal and the push.
\<close>

theorem deleteTasks_activates_last_deleted:
  "(let w = select_at 0 (set_activeTaskIndex 1 (document Dataintegration [''a'', ''b'', ''c'', ''d'']));
        w' = deleteTasks w
    in find_toDelete w = [0, 1] \<and> texts_of w' = [''c'', ''d''] \<and> activeTaskIndex w' = 1
       \<and> active_text w' = Some ''d''
       \<and> length (history_of w') = Suc (length (history_of w))
       \<and> take 1 (history_of w') = [[(ChRemove, 1, -1), (ChRemove, 0, -1)]])
   \<and> texts_of one_deleted = [[]] \<and> activeTaskIndex one_deleted = 0
   \<and> take 1 (history_of one_deleted) = [[(ChRemove, 0, -1), (ChAdd, -1, 0)]]"
  by code_simp

text \<open>
  C5.  Scenario C: tasks 0 and 2 of three are copied, the active index is set to 1, and
  the clipboard is pasted.  The clipboard holds the two records, each with
  \<open>task_type\<close>; \<open>paste\<close> reads \<open>Task_type\<close>, finds it in neither, makes no
  entity and inserts nothing: the three tasks and the active index are as before.
\<close>

theorem paste_inserts_nothing:
  "(let w = select_at 2 (document Dataintegration [''a'', ''b'', ''c'']);
        (clipboard, w1) = copyOrCut False (None, w);
        w2 = set_activeTaskIndex 1 w1;
        w3 = paste clipboard w2
    in map_option (map j_source) clipboard = Some [Inr ''a'', Inr ''c'']
       \<and> map_option (map j_task_type) clipboard = Some [''Dataintegration'', ''Dataintegration'']
       \<and> texts_of w3 = [''a'', ''b'', ''c''] \<and> activeTaskIndex w3 = 1)"
  by code_simp

theorem undo_redo_frame_witness:
  "model one_deleted \<noteq> None \<and> p_activeTask one_deleted \<noteq> None
   \<and> p_mode (undo one_deleted) = command \<and> list_all (\<lambda>c. \<not> selected c) (widgets (undo one_deleted))
   \<and> texts_of one_deleted = [[]] \<and> texts_of (undo one_deleted) = [''x''] \<and> texts_of (redo (undo one_deleted)) = [[]]"
proof -
  have h: "model one_deleted \<noteq> None \<and> p_activeTask one_deleted \<noteq> None" by code_simp
  have t: "texts_of one_deleted = [[]] \<and> texts_of (undo one_deleted) = [''x''] \<and> texts_of (redo (undo one_deleted)) = [[]]" by code_simp
  from undo_redo_frame[of one_deleted] h t show ?thesis by blast
qed








end
